theory Spec2Isabelle
  imports Complex_Main
begin

section \<open>Environment validation (src/lib/config/env.ts)\<close>

text \<open>
  \<^verbatim>\<open>process.env\<close> is a mapping from variable names to strings; a variable that is
  not set reads as \<^verbatim>\<open>undefined\<close>, here \<open>None\<close>.
\<close>

type_synonym process_env = "string \<Rightarrow> string option"

text \<open>
  JavaScript truthiness of a value that is a string or \<^verbatim>\<open>undefined\<close>/\<^verbatim>\<open>null\<close>:
  only a non-empty string is truthy.
\<close>

fun truthy :: "string option \<Rightarrow> bool" where
  "truthy None = False"
| "truthy (Some s) = (s \<noteq> [])"

subsection \<open>What the schema library and the language supply\<close>

text \<open>
  A JavaScript number, as far as the schema can tell values apart: not-a-number, the two
  infinities, or a finite value (every finite double is a rational).
\<close>

datatype jsnum = NaN | PosInfinity | NegInfinity | Finite rat

text \<open>
  Two routines are not part of this repository and are taken as parameters:
  \<^verbatim>\<open>Number(...)\<close>, by which \<^verbatim>\<open>z.coerce.number()\<close> turns the variable's string into a
  number, and the format check behind \<^verbatim>\<open>z.string().url()\<close>.
\<close>

record externals =
  Number :: "string \<Rightarrow> jsnum"
  isUrl :: "string \<Rightarrow> bool"

text \<open>
  A validation issue: the path of keys it is reported at, its code, and the message where
  the source fixes one (\<open>None\<close>: the library's own wording).
\<close>

datatype issue_code = invalid_type | invalid_value | too_small | too_big | invalid_format | custom

datatype issue = Issue (issue_path: "string list") (code_of: issue_code) (message_of: "string option")

fun prefixIssue :: "string \<Rightarrow> issue \<Rightarrow> issue" where
  "prefixIssue key (Issue p c m) = Issue (key # p) c m"

text \<open>
  The outcome of parsing a value. A failed type test aborts (no value); a failed check
  (\<^verbatim>\<open>min\<close>, \<^verbatim>\<open>max\<close>, \<^verbatim>\<open>url\<close>, a refinement) leaves the value and records the issue, so
  that later checks still run on it.
\<close>

datatype 'a outcome = Valid 'a | Dirty "issue list" 'a | Aborted "issue list"

fun issues_of :: "'a outcome \<Rightarrow> issue list" where
  "issues_of (Valid v) = []"
| "issues_of (Dirty is v) = is"
| "issues_of (Aborted is) = is"

fun value_of :: "'a outcome \<Rightarrow> 'a option" where
  "value_of (Valid v) = Some v"
| "value_of (Dirty is v) = Some v"
| "value_of (Aborted is) = None"

type_synonym 'a schema = "string option \<Rightarrow> 'a outcome"

text \<open>\<^verbatim>\<open>z.string()\<close> and \<^verbatim>\<open>z.enum([...])\<close>: type tests.\<close>

fun z_string :: "string schema" where
  "z_string None = Aborted [Issue [] invalid_type None]"
| "z_string (Some s) = Valid s"

fun z_enum :: "string list \<Rightarrow> string schema" where
  "z_enum values None = Aborted [Issue [] invalid_value None]"
| "z_enum values (Some s) =
     (if s \<in> set values then Valid s else Aborted [Issue [] invalid_value None])"

text \<open>
  \<^verbatim>\<open>z.coerce.number()\<close>: the input goes through \<^verbatim>\<open>Number\<close>; the result must be a finite
  number (\<^verbatim>\<open>Number(undefined)\<close> is not-a-number).
\<close>

fun z_coerce_number :: "externals \<Rightarrow> rat schema" where
  "z_coerce_number X None = Aborted [Issue [] invalid_type None]"
| "z_coerce_number X (Some s) =
     (case Number X s of
        Finite r \<Rightarrow> Valid r
      | _ \<Rightarrow> Aborted [Issue [] invalid_type None])"

text \<open>
  A check (or a refinement) runs on the value unless parsing has aborted, and adds its
  issues to those already found.
\<close>

fun z_check :: "('a \<Rightarrow> issue list) \<Rightarrow> 'a outcome \<Rightarrow> 'a outcome" where
  "z_check chk (Valid v) = (if chk v = [] then Valid v else Dirty (chk v) v)"
| "z_check chk (Dirty is v) = Dirty (is @ chk v) v"
| "z_check chk (Aborted is) = Aborted is"

definition min_length :: "nat \<Rightarrow> string \<Rightarrow> string \<Rightarrow> issue list" where
  "min_length n msg s = (if length s < n then [Issue [] too_small (Some msg)] else [])"

definition url :: "externals \<Rightarrow> string \<Rightarrow> issue list" where
  "url X s = (if isUrl X s then [] else [Issue [] invalid_format None])"

definition z_min :: "rat \<Rightarrow> rat \<Rightarrow> issue list" where
  "z_min lo r = (if r < lo then [Issue [] too_small None] else [])"

definition z_max :: "rat \<Rightarrow> rat \<Rightarrow> issue list" where
  "z_max hi r = (if hi < r then [Issue [] too_big None] else [])"

text \<open>\<^verbatim>\<open>.default(d)\<close>, \<^verbatim>\<open>.optional()\<close> and \<^verbatim>\<open>.transform(f)\<close>.\<close>

fun z_default :: "'a \<Rightarrow> 'a schema \<Rightarrow> 'a schema" where
  "z_default d schema None = Valid d"
| "z_default d schema (Some s) = schema (Some s)"

fun map_outcome :: "('a \<Rightarrow> 'b) \<Rightarrow> 'a outcome \<Rightarrow> 'b outcome" where
  "map_outcome f (Valid v) = Valid (f v)"
| "map_outcome f (Dirty is v) = Dirty is (f v)"
| "map_outcome f (Aborted is) = Aborted is"

fun z_optional :: "'a schema \<Rightarrow> 'a option schema" where
  "z_optional schema None = Valid None"
| "z_optional schema (Some s) = map_outcome Some (schema (Some s))"

definition z_transform :: "('a \<Rightarrow> 'b) \<Rightarrow> 'a schema \<Rightarrow> 'b schema" where
  "z_transform f schema input = map_outcome f (schema input)"

text \<open>
  One key of \<^verbatim>\<open>z.object({...})\<close>: the key's schema runs on the variable's value, and its
  issues are reported under the key. \<open>ap\<close> joins the keys parsed so far with the next
  one: every key is parsed and every issue kept, and the object has a value only if no
  key aborted.
\<close>

definition z_field :: "process_env \<Rightarrow> string \<Rightarrow> 'a schema \<Rightarrow> 'a outcome" where
  "z_field env key schema =
     (case schema (env key) of
        Valid v \<Rightarrow> Valid v
      | Dirty is v \<Rightarrow> Dirty (map (prefixIssue key) is) v
      | Aborted is \<Rightarrow> Aborted (map (prefixIssue key) is))"

fun ap :: "('a \<Rightarrow> 'b) outcome \<Rightarrow> 'a outcome \<Rightarrow> 'b outcome" where
  "ap (Valid f) (Valid x) = Valid (f x)"
| "ap (Valid f) (Dirty js x) = Dirty js (f x)"
| "ap (Dirty is f) (Valid x) = Dirty is (f x)"
| "ap (Dirty is f) (Dirty js x) = Dirty (is @ js) (f x)"
| "ap (Aborted is) y = Aborted (is @ issues_of y)"
| "ap (Valid f) (Aborted js) = Aborted js"
| "ap (Dirty is f) (Aborted js) = Aborted (is @ js)"

subsection \<open>The schema\<close>

record Env =
  NODE_ENV :: string
  NEXTAUTH_SECRET :: string
  NEXTAUTH_URL :: "string option"
  AUTH_TRUST_HOST :: bool
  GOOGLE_CLIENT_ID :: "string option"
  GOOGLE_CLIENT_SECRET :: "string option"
  RATE_LIMIT_ENABLED :: bool
  RATE_LIMIT_MAX_REQUESTS :: rat
  RATE_LIMIT_WINDOW_SECONDS :: rat
  ANALYTICS_ENABLED :: bool
  ANALYTICS_SINK :: string
  LOG_LEVEL :: string
  LOG_FORMAT :: string
  LOG_INCLUDE_TIMESTAMP :: bool
  DATABASE_QUERY_TIMEOUT :: rat
  CACHE_DEFAULT_TTL :: rat
  ENABLE_PERFORMANCE_MONITORING :: bool
  SLOW_QUERY_THRESHOLD_MS :: rat

definition mkEnv ::
  "string \<Rightarrow> string \<Rightarrow> string option \<Rightarrow> bool \<Rightarrow> string option \<Rightarrow> string option \<Rightarrow>
   bool \<Rightarrow> rat \<Rightarrow> rat \<Rightarrow> bool \<Rightarrow> string \<Rightarrow> string \<Rightarrow> string \<Rightarrow> bool \<Rightarrow> rat \<Rightarrow> rat \<Rightarrow>
   bool \<Rightarrow> rat \<Rightarrow> Env" where
  "mkEnv a1 a2 a3 a4 a5 a6 a7 a8 a9 a10 a11 a12 a13 a14 a15 a16 a17 a18 =
     \<lparr> NODE_ENV = a1, NEXTAUTH_SECRET = a2, NEXTAUTH_URL = a3, AUTH_TRUST_HOST = a4,
       GOOGLE_CLIENT_ID = a5, GOOGLE_CLIENT_SECRET = a6, RATE_LIMIT_ENABLED = a7,
       RATE_LIMIT_MAX_REQUESTS = a8, RATE_LIMIT_WINDOW_SECONDS = a9,
       ANALYTICS_ENABLED = a10, ANALYTICS_SINK = a11, LOG_LEVEL = a12, LOG_FORMAT = a13,
       LOG_INCLUDE_TIMESTAMP = a14, DATABASE_QUERY_TIMEOUT = a15, CACHE_DEFAULT_TTL = a16,
       ENABLE_PERFORMANCE_MONITORING = a17, SLOW_QUERY_THRESHOLD_MS = a18 \<rparr>"

text \<open>
  The schemas of the keys, as the source composes them.
  \<^verbatim>\<open>z.enum(['true', 'false']).default(d).transform(val => val === 'true')\<close> is
  \<open>flag d\<close>; \<^verbatim>\<open>z.coerce.number().min(lo).max(hi).default(d)\<close> is \<open>bounded X lo hi d\<close>;
  \<^verbatim>\<open>z.string().min(1, msg).optional()\<close> is \<open>nonempty_optional msg\<close>.
\<close>

definition flag :: "string \<Rightarrow> bool schema" where
  "flag d = z_transform (\<lambda>val. val = ''true'') (z_default d (z_enum [''true'', ''false'']))"

definition bounded :: "externals \<Rightarrow> rat \<Rightarrow> rat \<Rightarrow> rat \<Rightarrow> rat schema" where
  "bounded X lo hi d =
     z_default d (\<lambda>input. z_check (z_max hi) (z_check (z_min lo) (z_coerce_number X input)))"

definition nonempty_optional :: "string \<Rightarrow> string option schema" where
  "nonempty_optional msg = z_optional (\<lambda>input. z_check (min_length 1 msg) (z_string input))"

definition envObject :: "externals \<Rightarrow> process_env \<Rightarrow> Env outcome" where
  "envObject X env =
     (let o1 = ap (Valid mkEnv) (z_field env ''NODE_ENV''
                  (z_default ''development'' (z_enum [''development'', ''production'', ''test''])));
          o2 = ap o1 (z_field env ''NEXTAUTH_SECRET''
                  (z_default ''dev-secret''
                     (\<lambda>input. z_check (min_length 1 ''NEXTAUTH_SECRET is required'') (z_string input))));
          o3 = ap o2 (z_field env ''NEXTAUTH_URL''
                  (z_optional (\<lambda>input. z_check (url X) (z_string input))));
          o4 = ap o3 (z_field env ''AUTH_TRUST_HOST'' (flag ''false''));
          o5 = ap o4 (z_field env ''GOOGLE_CLIENT_ID''
                  (nonempty_optional ''GOOGLE_CLIENT_ID must be a non-empty string''));
          o6 = ap o5 (z_field env ''GOOGLE_CLIENT_SECRET''
                  (nonempty_optional ''GOOGLE_CLIENT_SECRET must be a non-empty string''));
          o7 = ap o6 (z_field env ''RATE_LIMIT_ENABLED'' (flag ''true''));
          o8 = ap o7 (z_field env ''RATE_LIMIT_MAX_REQUESTS'' (bounded X 1 10000 100));
          o9 = ap o8 (z_field env ''RATE_LIMIT_WINDOW_SECONDS'' (bounded X 1 3600 60));
          o10 = ap o9 (z_field env ''ANALYTICS_ENABLED'' (flag ''true''));
          o11 = ap o10 (z_field env ''ANALYTICS_SINK''
                  (z_default ''log'' (z_enum [''log'', ''kv'', ''d1'', ''engine''])));
          o12 = ap o11 (z_field env ''LOG_LEVEL''
                  (z_default ''INFO'' (z_enum [''DEBUG'', ''INFO'', ''WARN'', ''ERROR''])));
          o13 = ap o12 (z_field env ''LOG_FORMAT''
                  (z_default ''json'' (z_enum [''json'', ''pretty''])));
          o14 = ap o13 (z_field env ''LOG_INCLUDE_TIMESTAMP'' (flag ''true''));
          o15 = ap o14 (z_field env ''DATABASE_QUERY_TIMEOUT'' (bounded X 1000 30000 5000));
          o16 = ap o15 (z_field env ''CACHE_DEFAULT_TTL'' (bounded X 1 86400 3600));
          o17 = ap o16 (z_field env ''ENABLE_PERFORMANCE_MONITORING'' (flag ''true''));
          o18 = ap o17 (z_field env ''SLOW_QUERY_THRESHOLD_MS'' (bounded X 100 10000 1000))
      in o18)"

text \<open>
  The refinement of \<^verbatim>\<open>.superRefine\<close>: the OAuth client id and secret go together.
\<close>

definition together_issue :: issue where
  "together_issue =
     Issue [''GOOGLE_CLIENT_ID''] custom
       (Some ''GOOGLE_CLIENT_ID and GOOGLE_CLIENT_SECRET must be provided together'')"

definition superRefine :: "Env \<Rightarrow> issue list" where
  "superRefine v =
     (if (truthy (GOOGLE_CLIENT_ID v) \<and> \<not> truthy (GOOGLE_CLIENT_SECRET v)) \<or>
         (\<not> truthy (GOOGLE_CLIENT_ID v) \<and> truthy (GOOGLE_CLIENT_SECRET v))
      then [together_issue] else [])"

definition envSchema :: "externals \<Rightarrow> process_env \<Rightarrow> Env outcome" where
  "envSchema X env = z_check superRefine (envObject X env)"

text \<open>
  Exceptions: the schema's \<^verbatim>\<open>ZodError\<close> with its issues, and a plain \<^verbatim>\<open>Error\<close> with
  its message.
\<close>

datatype exn = ZodError "issue list" | Error string

text \<open>\<^verbatim>\<open>envSchema.parse(process.env)\<close>: the value, or a \<^verbatim>\<open>ZodError\<close> with every issue.\<close>

definition envSchema_parse :: "externals \<Rightarrow> process_env \<Rightarrow> exn + Env" where
  "envSchema_parse X env =
     (case envSchema X env of
        Valid v \<Rightarrow> Inr v
      | Dirty is v \<Rightarrow> Inl (ZodError is)
      | Aborted is \<Rightarrow> Inl (ZodError is))"

text \<open>
  The body of the \<^verbatim>\<open>try\<close> block of \<^verbatim>\<open>validateEnv\<close>, then the \<^verbatim>\<open>catch\<close>: a
  \<^verbatim>\<open>ZodError\<close> is replaced by a plain error, anything else is thrown again. (What is
  written to the console is not modelled.)
\<close>

definition validateEnv_try :: "externals \<Rightarrow> process_env \<Rightarrow> exn + Env" where
  "validateEnv_try X env =
     (case envSchema_parse X env of
        Inl e \<Rightarrow> Inl e
      | Inr parsed0 \<Rightarrow>
          (let parsed =
                 (if AUTH_TRUST_HOST parsed0 = False \<and> \<not> truthy (env ''AUTH_TRUST_HOST'') \<and>
                     (truthy (env ''CF_PAGES'') \<or> truthy (env ''VERCEL''))
                  then parsed0 \<lparr> AUTH_TRUST_HOST := True \<rparr> else parsed0);
               isCI = (env ''CI'' = Some ''true'');
               isBuildTime = (env ''NEXT_PHASE'' = Some ''phase-production-build'')
           in if NEXTAUTH_SECRET parsed = ''dev-secret'' \<and> NODE_ENV parsed = ''production'' \<and>
                 \<not> isCI \<and> \<not> isBuildTime
              then Inl (Error ''NEXTAUTH_SECRET must be configured for production environments'')
              else Inr parsed))"

definition validateEnv :: "externals \<Rightarrow> process_env \<Rightarrow> exn + Env" where
  "validateEnv X env =
     (case validateEnv_try X env of
        Inl (ZodError is) \<Rightarrow>
          Inl (Error ''Environment variable validation failed. Please check configuration'')
      | Inl (Error msg) \<Rightarrow> Inl (Error msg)
      | Inr parsed \<Rightarrow> Inr parsed)"

text \<open>
  A stand-in for \<^verbatim>\<open>Number\<close> and the URL check, for evaluating the schema on concrete
  environments: it reads a string of decimal digits as JavaScript does (the empty string
  is 0), and knows no other numeral and no URL.
\<close>

definition digit_value :: "char \<Rightarrow> nat option" where
  "digit_value c = map_of (zip ''0123456789'' [0, 1, 2, 3, 4, 5, 6, 7, 8, 9]) c"

fun digits_value :: "nat \<Rightarrow> string \<Rightarrow> nat option" where
  "digits_value acc [] = Some acc"
| "digits_value acc (c # cs) =
     (case digit_value c of None \<Rightarrow> None | Some d \<Rightarrow> digits_value (10 * acc + d) cs)"

definition digits_only :: externals where
  "digits_only =
     \<lparr> Number = (\<lambda>s. case digits_value 0 s of None \<Rightarrow> NaN | Some n \<Rightarrow> Finite (of_nat n)),
       isUrl = (\<lambda>s. False) \<rparr>"

section \<open>Authentication policy (src/lib/auth/config.ts)\<close>

subsection \<open>The credentials provider\<close>

text \<open>
  A row of the user table, as \<^verbatim>\<open>prisma.user.findUnique\<close> returns it. The type of the
  row's id is the persistence layer's; \<^verbatim>\<open>authorize\<close> only calls \<^verbatim>\<open>toString()\<close> on it.
\<close>

record 'id db_user =
  db_id :: 'id
  db_email :: string
  db_name :: "string option"
  db_image :: "string option"
  db_password :: "string option"

text \<open>
  The collaborators of \<^verbatim>\<open>authorize\<close>, none of them part of this repository: the
  lookup by unique email, the password verifier, and the id's \<^verbatim>\<open>toString\<close>.
\<close>

record 'id collaborators =
  findUnique :: "string \<Rightarrow> 'id db_user option"
  verifyPassword :: "string \<Rightarrow> string \<Rightarrow> bool"
  toString :: "'id \<Rightarrow> string"

text \<open>The calls \<^verbatim>\<open>authorize\<close> makes to them, in order.\<close>

datatype call = FindUnique string | VerifyPassword string string

record credentials =
  email :: "string option"
  password :: "string option"

text \<open>
  The identity an authentication yields (the library's \<^verbatim>\<open>User\<close>): what \<^verbatim>\<open>authorize\<close>
  returns and what the token callback receives on first sign-in.
\<close>

record auth_user =
  user_id :: "string option"
  user_email :: "string option"
  user_name :: "string option"
  user_image :: "string option"

text \<open>\<^verbatim>\<open>credentials?.email\<close>: a field of a value that may be \<^verbatim>\<open>undefined\<close>.\<close>

fun optional_chain :: "'a option \<Rightarrow> ('a \<Rightarrow> 'b option) \<Rightarrow> 'b option" where
  "optional_chain None field = None"
| "optional_chain (Some c) field = field c"

text \<open>
  \<^verbatim>\<open>authorize\<close> returns the identity or throws; the second component lists the calls it
  made. A string that is \<^verbatim>\<open>undefined\<close> or empty is falsy, so each test \<^verbatim>\<open>!x\<close> on a
  string is an absent value or an empty one.
\<close>

definition authorize ::
  "'id collaborators \<Rightarrow> credentials option \<Rightarrow> (exn + auth_user) \<times> call list" where
  "authorize C creds =
     (case (optional_chain creds email, optional_chain creds password) of
        (Some e, Some pw) \<Rightarrow>
          if e = [] \<or> pw = [] then (Inl (Error ''Please provide email and password''), [])
          else
            (case findUnique C e of
               None \<Rightarrow> (Inl (Error ''Invalid email or password''), [FindUnique e])
             | Some user \<Rightarrow>
                 (case db_password user of
                    None \<Rightarrow> (Inl (Error ''Invalid email or password''), [FindUnique e])
                  | Some hash \<Rightarrow>
                      if hash = [] then (Inl (Error ''Invalid email or password''), [FindUnique e])
                      else if \<not> verifyPassword C pw hash
                      then (Inl (Error ''Invalid email or password''),
                            [FindUnique e, VerifyPassword pw hash])
                      else
                        (Inr \<lparr> user_id = Some (toString C (db_id user)),
                               user_email = Some (db_email user),
                               user_name = db_name user,
                               user_image = db_image user \<rparr>,
                         [FindUnique e, VerifyPassword pw hash])))
      | _ \<Rightarrow> (Inl (Error ''Please provide email and password''), []))"

subsection \<open>The callbacks\<close>

text \<open>
  The token and the session's user carry more fields than the callbacks touch (the
  records are extensible). The callbacks assign to the object they are given and return
  it: here they return the updated record.
\<close>

record token =
  token_id :: "string option"
  token_email :: "string option"
  token_name :: "string option"
  token_picture :: "string option"

definition jwt :: "'a token_scheme \<Rightarrow> auth_user option \<Rightarrow> 'a token_scheme" where
  "jwt token user =
     (case user of
        Some u \<Rightarrow>
          token \<lparr> token_id := user_id u, token_email := user_email u,
                  token_name := user_name u, token_picture := user_image u \<rparr>
      | None \<Rightarrow> token)"

record session_user =
  su_id :: "string option"
  su_email :: "string option"
  su_name :: "string option"
  su_image :: "string option"

record 'u session =
  user :: "'u session_user_scheme option"
  expires :: string

definition session_callback ::
  "('u, 's) session_scheme \<Rightarrow> 'a token_scheme option \<Rightarrow> ('u, 's) session_scheme" where
  "session_callback session token =
     (case (token, user session) of
        (Some t, Some u) \<Rightarrow>
          session \<lparr> user := Some (u \<lparr> su_id := token_id t, su_email := token_email t,
                                     su_name := token_name t, su_image := token_picture t \<rparr>) \<rparr>
      | _ \<Rightarrow> session)"

subsection \<open>The policy object\<close>

record auth_config =
  trustHost :: bool
  session_strategy :: string
  session_maxAge :: int
  pages_signIn :: string
  pages_error :: string
  google_clientId :: "string option"
  google_clientSecret :: "string option"
  debug :: bool

text \<open>
  \<^verbatim>\<open>authConfig\<close> reads the validated \<^verbatim>\<open>env\<close> for the host-trust flag and
  \<^verbatim>\<open>process.env\<close> itself for the OAuth client and the debug flag.
\<close>

definition authConfig :: "process_env \<Rightarrow> Env \<Rightarrow> auth_config" where
  "authConfig process_env env =
     \<lparr> trustHost = AUTH_TRUST_HOST env,
       session_strategy = ''jwt'',
       session_maxAge = 30 * 24 * 60 * 60,
       pages_signIn = ''/login'',
       pages_error = ''/login'',
       google_clientId = process_env ''GOOGLE_CLIENT_ID'',
       google_clientSecret = process_env ''GOOGLE_CLIENT_SECRET'',
       debug = (process_env ''NODE_ENV'' = Some ''development'') \<rparr>"

text \<open>
  Loading the module: \<^verbatim>\<open>env.ts\<close> runs \<^verbatim>\<open>validateEnv()\<close> when it is imported, so the
  policy object exists only if validation returned.
\<close>

definition load_authConfig :: "externals \<Rightarrow> process_env \<Rightarrow> exn + auth_config" where
  "load_authConfig X process_env =
     (case validateEnv X process_env of
        Inl e \<Rightarrow> Inl e
      | Inr env \<Rightarrow> Inr (authConfig process_env env))"

text \<open>
  A user table and a verifier to evaluate \<^verbatim>\<open>authorize\<close> on: ids are strings, and the
  hash of a password is the password behind a fixed prefix.
\<close>

definition demo_users :: "string db_user list" where
  "demo_users =
     [\<lparr> db_id = ''u1'', db_email = ''ann@example.com'', db_name = Some ''Ann'',
        db_image = None, db_password = Some ''hash:correct horse'' \<rparr>,
      \<lparr> db_id = ''u2'', db_email = ''bob@example.com'', db_name = None,
        db_image = Some ''/bob.png'', db_password = None \<rparr>,
      \<lparr> db_id = ''u3'', db_email = ''eve@example.com'', db_name = Some ''Eve'',
        db_image = None, db_password = Some ''hash:'' \<rparr>]"

definition demo :: "string collaborators" where
  "demo =
     \<lparr> findUnique = (\<lambda>e. find (\<lambda>u. db_email u = e) demo_users),
       verifyPassword = (\<lambda>pw hash. hash = ''hash:'' @ pw),
       toString = (\<lambda>i. i) \<rparr>"

section \<open>Properties of the environment validator\<close>

subsection \<open>Outcomes\<close>

lemma ap_ValidE:
  assumes "ap F x = Valid v"
  obtains f a where "F = Valid f" and "x = Valid a" and "v = f a"
  using assms by (cases F; cases x) auto

lemma issues_of_ap: "issues_of (ap F x) = issues_of F @ issues_of x"
  by (cases F; cases x) auto

lemma value_of_apE:
  assumes "value_of (ap F x) = Some v"
  obtains f a where "value_of F = Some f" and "value_of x = Some a" and "v = f a"
  using assms by (cases F; cases x) auto

lemma z_check_eq_Valid: "z_check chk y = Valid v \<longleftrightarrow> y = Valid v \<and> chk v = []"
  by (cases y) auto

lemma z_field_eq_Valid: "z_field env key schema = Valid v \<longleftrightarrow> schema (env key) = Valid v"
  by (auto simp: z_field_def split: outcome.splits)

lemma value_of_z_field: "value_of (z_field env key schema) = value_of (schema (env key))"
  by (auto simp: z_field_def split: outcome.splits)

lemma issues_of_z_field:
  "issues_of (z_field env key schema) = map (prefixIssue key) (issues_of (schema (env key)))"
  by (auto simp: z_field_def split: outcome.splits)

lemma code_of_prefixIssue: "code_of (prefixIssue key i) = code_of i"
  by (cases i) simp

subsection \<open>What the schema of a key accepts\<close>

lemma enum_default_eq_Valid:
  "z_default d (z_enum values) input = Valid v \<longleftrightarrow>
   v = (case input of None \<Rightarrow> d | Some s \<Rightarrow> s) \<and> (\<forall>s. input = Some s \<longrightarrow> s \<in> set values)"
  by (cases input) auto

lemma flag_eq_Valid:
  "flag d input = Valid v \<longleftrightarrow>
   v = (input = Some ''true'' \<or> input = None \<and> d = ''true'') \<and>
   (\<forall>s. input = Some s \<longrightarrow> s = ''true'' \<or> s = ''false'')"
  by (cases input) (auto simp: flag_def z_transform_def)

lemma secret_eq_Valid:
  "z_default d (\<lambda>input. z_check (min_length n msg) (z_string input)) input = Valid v \<longleftrightarrow>
   v = (case input of None \<Rightarrow> d | Some s \<Rightarrow> s) \<and> (\<forall>s. input = Some s \<longrightarrow> n \<le> length s)"
  by (cases input) (auto simp: z_check_eq_Valid min_length_def)

lemma nonempty_optional_eq_Valid:
  "nonempty_optional msg input = Valid v \<longleftrightarrow> v = input \<and> input \<noteq> Some []"
  by (cases input) (auto simp: nonempty_optional_def min_length_def)

lemma bounded_eq_Valid:
  "bounded X lo hi d input = Valid v \<longleftrightarrow>
   (input = None \<longrightarrow> v = d) \<and>
   (\<forall>s. input = Some s \<longrightarrow> Number X s = Finite v \<and> lo \<le> v \<and> v \<le> hi)"
  by (cases input)
     (auto simp: bounded_def z_check_eq_Valid z_min_def z_max_def split: jsnum.splits)

lemma value_of_nonempty_optional:
  "value_of (nonempty_optional msg input) = Some input"
  by (cases input) (auto simp: nonempty_optional_def min_length_def)

lemma envObject_Valid_fields:
  assumes "envObject X env = Valid p"
  shows "z_default ''development'' (z_enum [''development'', ''production'', ''test''])
           (env ''NODE_ENV'') = Valid (NODE_ENV p)
    \<and> z_default ''dev-secret''
           (\<lambda>input. z_check (min_length 1 ''NEXTAUTH_SECRET is required'') (z_string input))
           (env ''NEXTAUTH_SECRET'') = Valid (NEXTAUTH_SECRET p)
    \<and> flag ''false'' (env ''AUTH_TRUST_HOST'') = Valid (AUTH_TRUST_HOST p)
    \<and> nonempty_optional ''GOOGLE_CLIENT_ID must be a non-empty string''
           (env ''GOOGLE_CLIENT_ID'') = Valid (GOOGLE_CLIENT_ID p)
    \<and> nonempty_optional ''GOOGLE_CLIENT_SECRET must be a non-empty string''
           (env ''GOOGLE_CLIENT_SECRET'') = Valid (GOOGLE_CLIENT_SECRET p)
    \<and> flag ''true'' (env ''RATE_LIMIT_ENABLED'') = Valid (RATE_LIMIT_ENABLED p)
    \<and> bounded X 1 10000 100 (env ''RATE_LIMIT_MAX_REQUESTS'') = Valid (RATE_LIMIT_MAX_REQUESTS p)
    \<and> bounded X 1 3600 60 (env ''RATE_LIMIT_WINDOW_SECONDS'') = Valid (RATE_LIMIT_WINDOW_SECONDS p)
    \<and> flag ''true'' (env ''ANALYTICS_ENABLED'') = Valid (ANALYTICS_ENABLED p)
    \<and> z_default ''log'' (z_enum [''log'', ''kv'', ''d1'', ''engine''])
           (env ''ANALYTICS_SINK'') = Valid (ANALYTICS_SINK p)
    \<and> z_default ''INFO'' (z_enum [''DEBUG'', ''INFO'', ''WARN'', ''ERROR''])
           (env ''LOG_LEVEL'') = Valid (LOG_LEVEL p)
    \<and> z_default ''json'' (z_enum [''json'', ''pretty''])
           (env ''LOG_FORMAT'') = Valid (LOG_FORMAT p)
    \<and> flag ''true'' (env ''LOG_INCLUDE_TIMESTAMP'') = Valid (LOG_INCLUDE_TIMESTAMP p)
    \<and> bounded X 1000 30000 5000 (env ''DATABASE_QUERY_TIMEOUT'') = Valid (DATABASE_QUERY_TIMEOUT p)
    \<and> bounded X 1 86400 3600 (env ''CACHE_DEFAULT_TTL'') = Valid (CACHE_DEFAULT_TTL p)
    \<and> flag ''true'' (env ''ENABLE_PERFORMANCE_MONITORING'') = Valid (ENABLE_PERFORMANCE_MONITORING p)
    \<and> bounded X 100 10000 1000 (env ''SLOW_QUERY_THRESHOLD_MS'') = Valid (SLOW_QUERY_THRESHOLD_MS p)"
  using assms unfolding envObject_def Let_def
  by (elim ap_ValidE) (simp add: mkEnv_def z_field_eq_Valid)

lemma envObject_Valid_values:
  assumes "envObject X env = Valid p"
  shows "NODE_ENV p = (case env ''NODE_ENV'' of None \<Rightarrow> ''development'' | Some s \<Rightarrow> s)
    \<and> NEXTAUTH_SECRET p = (case env ''NEXTAUTH_SECRET'' of None \<Rightarrow> ''dev-secret'' | Some s \<Rightarrow> s)
    \<and> AUTH_TRUST_HOST p = (env ''AUTH_TRUST_HOST'' = Some ''true'')
    \<and> GOOGLE_CLIENT_ID p = env ''GOOGLE_CLIENT_ID'' \<and> env ''GOOGLE_CLIENT_ID'' \<noteq> Some []
    \<and> GOOGLE_CLIENT_SECRET p = env ''GOOGLE_CLIENT_SECRET'' \<and> env ''GOOGLE_CLIENT_SECRET'' \<noteq> Some []"
  using envObject_Valid_fields [OF assms]
  by (simp add: enum_default_eq_Valid flag_eq_Valid secret_eq_Valid
        nonempty_optional_eq_Valid del: One_nat_def)

lemma envObject_Valid_defaults:
  assumes "envObject X env = Valid p"
  shows "(env ''NODE_ENV'' = None \<longrightarrow> NODE_ENV p = ''development'')
    \<and> (env ''NEXTAUTH_SECRET'' = None \<longrightarrow> NEXTAUTH_SECRET p = ''dev-secret'')
    \<and> (env ''AUTH_TRUST_HOST'' = None \<longrightarrow> AUTH_TRUST_HOST p = False)
    \<and> (env ''RATE_LIMIT_ENABLED'' = None \<longrightarrow> RATE_LIMIT_ENABLED p = True)
    \<and> (env ''RATE_LIMIT_MAX_REQUESTS'' = None \<longrightarrow> RATE_LIMIT_MAX_REQUESTS p = 100)
    \<and> (env ''RATE_LIMIT_WINDOW_SECONDS'' = None \<longrightarrow> RATE_LIMIT_WINDOW_SECONDS p = 60)
    \<and> (env ''ANALYTICS_ENABLED'' = None \<longrightarrow> ANALYTICS_ENABLED p = True)
    \<and> (env ''ANALYTICS_SINK'' = None \<longrightarrow> ANALYTICS_SINK p = ''log'')
    \<and> (env ''LOG_LEVEL'' = None \<longrightarrow> LOG_LEVEL p = ''INFO'')
    \<and> (env ''LOG_FORMAT'' = None \<longrightarrow> LOG_FORMAT p = ''json'')
    \<and> (env ''LOG_INCLUDE_TIMESTAMP'' = None \<longrightarrow> LOG_INCLUDE_TIMESTAMP p = True)
    \<and> (env ''DATABASE_QUERY_TIMEOUT'' = None \<longrightarrow> DATABASE_QUERY_TIMEOUT p = 5000)
    \<and> (env ''CACHE_DEFAULT_TTL'' = None \<longrightarrow> CACHE_DEFAULT_TTL p = 3600)
    \<and> (env ''ENABLE_PERFORMANCE_MONITORING'' = None \<longrightarrow> ENABLE_PERFORMANCE_MONITORING p = True)
    \<and> (env ''SLOW_QUERY_THRESHOLD_MS'' = None \<longrightarrow> SLOW_QUERY_THRESHOLD_MS p = 1000)"
  using envObject_Valid_fields [OF assms]
  by (simp add: enum_default_eq_Valid flag_eq_Valid secret_eq_Valid bounded_eq_Valid
        del: One_nat_def)


subsection \<open>Parsing and the production guard\<close>

lemma envSchema_parse_eq_Inr:
  "envSchema_parse X env = Inr p \<longleftrightarrow> envObject X env = Valid p \<and> superRefine p = []"
  by (auto simp: envSchema_parse_def envSchema_def z_check_eq_Valid split: outcome.splits)

lemma envSchema_parse_Inl:
  "envSchema_parse X env = Inl e \<Longrightarrow> e = ZodError (issues_of (envSchema X env))"
  by (auto simp: envSchema_parse_def split: outcome.splits)

lemma envSchema_parse_cases:
  obtains p where "envSchema_parse X env = Inr p"
  | "envSchema_parse X env = Inl (ZodError (issues_of (envSchema X env)))"
  by (cases "envSchema_parse X env") (auto dest: envSchema_parse_Inl)

lemma validateEnv_parse_failed:
  "envSchema_parse X env = Inl (ZodError is) \<Longrightarrow>
   validateEnv X env =
     Inl (Error ''Environment variable validation failed. Please check configuration'')"
  by (simp add: validateEnv_def validateEnv_try_def)

lemma validateEnv_parsed:
  assumes "envSchema_parse X env = Inr p"
  shows "validateEnv X env =
     (if NEXTAUTH_SECRET p = ''dev-secret'' \<and> NODE_ENV p = ''production'' \<and>
         env ''CI'' \<noteq> Some ''true'' \<and> env ''NEXT_PHASE'' \<noteq> Some ''phase-production-build''
      then Inl (Error ''NEXTAUTH_SECRET must be configured for production environments'')
      else Inr (p \<lparr> AUTH_TRUST_HOST :=
             AUTH_TRUST_HOST p \<or>
             (\<not> truthy (env ''AUTH_TRUST_HOST'') \<and>
              (truthy (env ''CF_PAGES'') \<or> truthy (env ''VERCEL''))) \<rparr>))"
  using assms by (auto simp: validateEnv_def validateEnv_try_def Let_def)

lemma not_Valid_fails:
  assumes "\<And>p. envObject X env \<noteq> Valid p"
  shows "envSchema_parse X env = Inl (ZodError (issues_of (envSchema X env)))"
  using assms by (cases rule: envSchema_parse_cases [of X env]) (auto simp: envSchema_parse_eq_Inr)


text \<open>
  C1. The production guard. Whenever the session secret is the placeholder
  \<^verbatim>\<open>dev-secret\<close> (set to it, or not set and defaulted to it), the run mode is
  \<^verbatim>\<open>production\<close>, and neither \<^verbatim>\<open>CI = 'true'\<close> nor
  \<^verbatim>\<open>NEXT_PHASE = 'phase-production-build'\<close> holds, \<^verbatim>\<open>validateEnv\<close> throws an
  error and returns no record. The guard's own error is thrown exactly when the schema
  accepts the environment and the three conditions hold: if one of them fails, the guard
  does not fire.
\<close>

theorem production_guard:
  "((env ''NEXTAUTH_SECRET'' = None \<or> env ''NEXTAUTH_SECRET'' = Some ''dev-secret'') \<and>
    env ''NODE_ENV'' = Some ''production'' \<and>
    env ''CI'' \<noteq> Some ''true'' \<and> env ''NEXT_PHASE'' \<noteq> Some ''phase-production-build''
    \<longrightarrow> (\<exists>msg. validateEnv X env = Inl (Error msg)))
   \<and>
   (validateEnv X env =
      Inl (Error ''NEXTAUTH_SECRET must be configured for production environments'')
    \<longleftrightarrow>
      (\<exists>p. envSchema_parse X env = Inr p) \<and>
      (env ''NEXTAUTH_SECRET'' = None \<or> env ''NEXTAUTH_SECRET'' = Some ''dev-secret'') \<and>
      env ''NODE_ENV'' = Some ''production'' \<and>
      env ''CI'' \<noteq> Some ''true'' \<and> env ''NEXT_PHASE'' \<noteq> Some ''phase-production-build'')"
proof (cases rule: envSchema_parse_cases [of X env])
  case (1 p)
  then have obj: "envObject X env = Valid p"
    by (simp add: envSchema_parse_eq_Inr)
  have secret: "NEXTAUTH_SECRET p = ''dev-secret'' \<longleftrightarrow>
      env ''NEXTAUTH_SECRET'' = None \<or> env ''NEXTAUTH_SECRET'' = Some ''dev-secret''"
    using envObject_Valid_values [OF obj] by (cases "env ''NEXTAUTH_SECRET''") simp_all
  have mode: "NODE_ENV p = ''production'' \<longleftrightarrow> env ''NODE_ENV'' = Some ''production''"
    using envObject_Valid_values [OF obj] by (cases "env ''NODE_ENV''") simp_all
  show ?thesis
    unfolding validateEnv_parsed [OF 1] secret mode using 1 by simp
next
  case 2
  then show ?thesis
    by (simp add: validateEnv_parse_failed)
qed


text \<open>
  The example of the specification, and the same environment in a CI build.
\<close>

theorem production_guard_witness:
  "validateEnv digits_only
     (map_of [(''NODE_ENV'', ''production''), (''NEXTAUTH_SECRET'', ''dev-secret'')]) =
     Inl (Error ''NEXTAUTH_SECRET must be configured for production environments'')
   \<and> validateEnv digits_only
     (map_of [(''NODE_ENV'', ''production''), (''NEXTAUTH_SECRET'', ''dev-secret''),
              (''CI'', ''true'')]) \<noteq>
     Inl (Error ''NEXTAUTH_SECRET must be configured for production environments'')"
proof -
  have "envSchema_parse digits_only
     (map_of [(''NODE_ENV'', ''production''), (''NEXTAUTH_SECRET'', ''dev-secret'')]) =
     Inr \<lparr> NODE_ENV = ''production'', NEXTAUTH_SECRET = ''dev-secret'', NEXTAUTH_URL = None,
       AUTH_TRUST_HOST = False, GOOGLE_CLIENT_ID = None, GOOGLE_CLIENT_SECRET = None,
       RATE_LIMIT_ENABLED = True, RATE_LIMIT_MAX_REQUESTS = 100,
       RATE_LIMIT_WINDOW_SECONDS = 60, ANALYTICS_ENABLED = True, ANALYTICS_SINK = ''log'',
       LOG_LEVEL = ''INFO'', LOG_FORMAT = ''json'', LOG_INCLUDE_TIMESTAMP = True,
       DATABASE_QUERY_TIMEOUT = 5000, CACHE_DEFAULT_TTL = 3600,
       ENABLE_PERFORMANCE_MONITORING = True, SLOW_QUERY_THRESHOLD_MS = 1000 \<rparr>"
    by code_simp
  then show ?thesis
    using production_guard [of "map_of [(''NODE_ENV'', ''production''), (''NEXTAUTH_SECRET'', ''dev-secret'')]" digits_only]
      production_guard [of "map_of [(''NODE_ENV'', ''production''), (''NEXTAUTH_SECRET'', ''dev-secret''), (''CI'', ''true'')]" digits_only]
    by simp
qed

subsection \<open>The cross-field rule\<close>

lemma enum_default_codes:
  "custom \<notin> code_of ` set (issues_of (z_default d (z_enum values) input))"
  by (cases input) auto

lemma flag_codes: "custom \<notin> code_of ` set (issues_of (flag d input))"
  by (cases input) (auto simp: flag_def z_transform_def)

lemma secret_codes:
  "custom \<notin> code_of ` set (issues_of
     (z_default d (\<lambda>input. z_check (min_length n msg) (z_string input)) input))"
  by (cases input) (auto simp: min_length_def)

lemma optional_url_codes:
  "custom \<notin> code_of ` set (issues_of
     (z_optional (\<lambda>input. z_check (url X) (z_string input)) input))"
  by (cases input) (auto simp: url_def)

lemma nonempty_optional_codes:
  "custom \<notin> code_of ` set (issues_of (nonempty_optional msg input))"
  by (cases input) (auto simp: nonempty_optional_def min_length_def)

lemma bounded_codes: "custom \<notin> code_of ` set (issues_of (bounded X lo hi d input))"
proof (cases input)
  case None
  then show ?thesis by (simp add: bounded_def)
next
  case (Some s)
  then show ?thesis
    by (cases "Number X s") (auto simp: bounded_def z_min_def z_max_def)
qed

lemma z_field_codes:
  "code_of ` set (issues_of (z_field env key schema)) =
   code_of ` set (issues_of (schema (env key)))"
  by (simp add: issues_of_z_field image_image code_of_prefixIssue)

lemma envObject_codes: "custom \<notin> code_of ` set (issues_of (envObject X env))"
  unfolding envObject_def Let_def
  by (simp add: issues_of_ap image_Un z_field_codes enum_default_codes flag_codes secret_codes
        optional_url_codes nonempty_optional_codes bounded_codes del: One_nat_def)

lemma envObject_value_oauth:
  assumes "value_of (envObject X env) = Some v"
  shows "GOOGLE_CLIENT_ID v = env ''GOOGLE_CLIENT_ID'' \<and>
         GOOGLE_CLIENT_SECRET v = env ''GOOGLE_CLIENT_SECRET''"
  using assms unfolding envObject_def Let_def
  by (elim value_of_apE) (simp add: mkEnv_def value_of_z_field value_of_nonempty_optional)

lemma superRefine_eq_Nil:
  "superRefine v = [] \<longleftrightarrow> truthy (GOOGLE_CLIENT_ID v) = truthy (GOOGLE_CLIENT_SECRET v)"
  by (auto simp: superRefine_def)

lemma issues_of_envSchema:
  "issues_of (envSchema X env) =
   issues_of (envObject X env) @
   (case value_of (envObject X env) of None \<Rightarrow> [] | Some v \<Rightarrow> superRefine v)"
  by (cases "envObject X env") (auto simp: envSchema_def)

lemma code_of_together_issue: "code_of together_issue = custom"
  by (simp add: together_issue_def)

text \<open>
  C3. The OAuth client id and secret go together. If exactly one of
  \<^verbatim>\<open>GOOGLE_CLIENT_ID\<close> and \<^verbatim>\<open>GOOGLE_CLIENT_SECRET\<close> is set, or exactly one of them is
  set to a non-empty string, the schema rejects the environment and \<^verbatim>\<open>validateEnv\<close>
  throws. If both are set to non-empty strings, or neither is (a variable set to the
  empty string is falsy for the rule, like one that is not set), the cross-field rule
  raises no issue: whatever issues the schema reports, the rule's issue is not among them.
\<close>

theorem oauth_pair_together:
  "(((env ''GOOGLE_CLIENT_ID'' = None) \<noteq> (env ''GOOGLE_CLIENT_SECRET'' = None) \<or>
     truthy (env ''GOOGLE_CLIENT_ID'') \<noteq> truthy (env ''GOOGLE_CLIENT_SECRET''))
    \<longrightarrow> (\<exists>is. envSchema_parse X env = Inl (ZodError is)) \<and>
        validateEnv X env =
          Inl (Error ''Environment variable validation failed. Please check configuration''))
   \<and>
   (truthy (env ''GOOGLE_CLIENT_ID'') = truthy (env ''GOOGLE_CLIENT_SECRET'')
    \<longrightarrow> (\<forall>is. envSchema_parse X env = Inl (ZodError is) \<longrightarrow> together_issue \<notin> set is))"
proof (intro conjI impI allI)
  assume one: "(env ''GOOGLE_CLIENT_ID'' = None) \<noteq> (env ''GOOGLE_CLIENT_SECRET'' = None) \<or>
     truthy (env ''GOOGLE_CLIENT_ID'') \<noteq> truthy (env ''GOOGLE_CLIENT_SECRET'')"
  have "envSchema_parse X env \<noteq> Inr p" for p
  proof
    assume "envSchema_parse X env = Inr p"
    then have obj: "envObject X env = Valid p" and ref: "superRefine p = []"
      by (simp_all add: envSchema_parse_eq_Inr)
    note v = envObject_Valid_values [OF obj]
    from ref v have same: "truthy (env ''GOOGLE_CLIENT_ID'') = truthy (env ''GOOGLE_CLIENT_SECRET'')"
      by (simp add: superRefine_eq_Nil)
    with one have "(env ''GOOGLE_CLIENT_ID'' = None) \<noteq> (env ''GOOGLE_CLIENT_SECRET'' = None)"
      by simp
    with same v show False
      by (cases "env ''GOOGLE_CLIENT_ID''"; cases "env ''GOOGLE_CLIENT_SECRET''") simp_all
  qed
  then have failed: "envSchema_parse X env = Inl (ZodError (issues_of (envSchema X env)))"
    by (cases rule: envSchema_parse_cases [of X env]) blast+
  then show "\<exists>is. envSchema_parse X env = Inl (ZodError is)" ..
  from failed show "validateEnv X env =
      Inl (Error ''Environment variable validation failed. Please check configuration'')"
    by (rule validateEnv_parse_failed)
next
  fix "is"
  assume same: "truthy (env ''GOOGLE_CLIENT_ID'') = truthy (env ''GOOGLE_CLIENT_SECRET'')"
    and "envSchema_parse X env = Inl (ZodError is)"
  then have "is": "is = issues_of (envSchema X env)"
    by (auto dest: envSchema_parse_Inl)
  have "superRefine v = []" if "value_of (envObject X env) = Some v" for v
    using envObject_value_oauth [OF that] same by (simp add: superRefine_eq_Nil)
  then have "is = issues_of (envObject X env)"
    unfolding "is" issues_of_envSchema by (cases "value_of (envObject X env)") simp_all
  with envObject_codes [of X env] show "together_issue \<notin> set is"
    using code_of_together_issue by (metis imageI)
qed


text \<open>
  An environment with the client id alone, and one with both and a threshold out of range.
\<close>

theorem oauth_pair_together_witness:
  "validateEnv digits_only (map_of [(''GOOGLE_CLIENT_ID'', ''abc'')]) =
     Inl (Error ''Environment variable validation failed. Please check configuration'')
   \<and> envSchema_parse digits_only
       (map_of [(''GOOGLE_CLIENT_ID'', ''abc''), (''GOOGLE_CLIENT_SECRET'', ''xyz''),
                (''RATE_LIMIT_MAX_REQUESTS'', ''0'')]) =
       Inl (ZodError [Issue [''RATE_LIMIT_MAX_REQUESTS''] too_small None])
   \<and> together_issue \<notin> set [Issue [''RATE_LIMIT_MAX_REQUESTS''] too_small None]"
proof -
  have "envSchema_parse digits_only
       (map_of [(''GOOGLE_CLIENT_ID'', ''abc''), (''GOOGLE_CLIENT_SECRET'', ''xyz''),
                (''RATE_LIMIT_MAX_REQUESTS'', ''0'')]) =
       Inl (ZodError [Issue [''RATE_LIMIT_MAX_REQUESTS''] too_small None])"
    by code_simp
  then show ?thesis
    using oauth_pair_together [of "map_of [(''GOOGLE_CLIENT_ID'', ''abc'')]" digits_only]
      oauth_pair_together [of "map_of [(''GOOGLE_CLIENT_ID'', ''abc''),
        (''GOOGLE_CLIENT_SECRET'', ''xyz''), (''RATE_LIMIT_MAX_REQUESTS'', ''0'')]" digits_only]
    by simp
qed

subsection \<open>Defaults\<close>

text \<open>
  C4, as the code has it. Whenever \<^verbatim>\<open>validateEnv\<close> returns a record, each defaulted
  variable that is not set has its default in the record: run mode
  \<^verbatim>\<open>development\<close>, session secret \<^verbatim>\<open>dev-secret\<close>, rate-limit toggle true with
  threshold 100 and window 60, analytics toggle true with backend \<^verbatim>\<open>log\<close>, log level
  \<^verbatim>\<open>INFO\<close>, log format \<^verbatim>\<open>json\<close>, timestamp toggle true, query timeout 5000, cache
  TTL 3600, performance monitoring true, slow-query threshold 1000. The host-trust flag
  is false in the record the schema produces, and \<^verbatim>\<open>validateEnv\<close> then sets it to true
  when \<^verbatim>\<open>CF_PAGES\<close> or \<^verbatim>\<open>VERCEL\<close> is set to a non-empty string; nothing else differs
  between the two records.
\<close>

theorem defaults_filled_in:
  assumes "validateEnv X env = Inr p"
  shows "(env ''NODE_ENV'' = None \<longrightarrow> NODE_ENV p = ''development'')
    \<and> (env ''NEXTAUTH_SECRET'' = None \<longrightarrow> NEXTAUTH_SECRET p = ''dev-secret'')
    \<and> (env ''AUTH_TRUST_HOST'' = None \<longrightarrow>
          AUTH_TRUST_HOST p = (truthy (env ''CF_PAGES'') \<or> truthy (env ''VERCEL'')))
    \<and> (env ''RATE_LIMIT_ENABLED'' = None \<longrightarrow> RATE_LIMIT_ENABLED p = True)
    \<and> (env ''RATE_LIMIT_MAX_REQUESTS'' = None \<longrightarrow> RATE_LIMIT_MAX_REQUESTS p = 100)
    \<and> (env ''RATE_LIMIT_WINDOW_SECONDS'' = None \<longrightarrow> RATE_LIMIT_WINDOW_SECONDS p = 60)
    \<and> (env ''ANALYTICS_ENABLED'' = None \<longrightarrow> ANALYTICS_ENABLED p = True)
    \<and> (env ''ANALYTICS_SINK'' = None \<longrightarrow> ANALYTICS_SINK p = ''log'')
    \<and> (env ''LOG_LEVEL'' = None \<longrightarrow> LOG_LEVEL p = ''INFO'')
    \<and> (env ''LOG_FORMAT'' = None \<longrightarrow> LOG_FORMAT p = ''json'')
    \<and> (env ''LOG_INCLUDE_TIMESTAMP'' = None \<longrightarrow> LOG_INCLUDE_TIMESTAMP p = True)
    \<and> (env ''DATABASE_QUERY_TIMEOUT'' = None \<longrightarrow> DATABASE_QUERY_TIMEOUT p = 5000)
    \<and> (env ''CACHE_DEFAULT_TTL'' = None \<longrightarrow> CACHE_DEFAULT_TTL p = 3600)
    \<and> (env ''ENABLE_PERFORMANCE_MONITORING'' = None \<longrightarrow> ENABLE_PERFORMANCE_MONITORING p = True)
    \<and> (env ''SLOW_QUERY_THRESHOLD_MS'' = None \<longrightarrow> SLOW_QUERY_THRESHOLD_MS p = 1000)
    \<and> (\<exists>p0. envSchema_parse X env = Inr p0 \<and>
          (env ''AUTH_TRUST_HOST'' = None \<longrightarrow> AUTH_TRUST_HOST p0 = False) \<and>
          p = p0 \<lparr> AUTH_TRUST_HOST := AUTH_TRUST_HOST p \<rparr>)"
proof (cases rule: envSchema_parse_cases [of X env])
  case (1 p0)
  then have obj: "envObject X env = Valid p0"
    by (simp add: envSchema_parse_eq_Inr)
  from assms have p: "p = p0 \<lparr> AUTH_TRUST_HOST :=
             AUTH_TRUST_HOST p0 \<or>
             (\<not> truthy (env ''AUTH_TRUST_HOST'') \<and>
              (truthy (env ''CF_PAGES'') \<or> truthy (env ''VERCEL''))) \<rparr>"
    unfolding validateEnv_parsed [OF 1] by (simp split: if_splits)
  have "\<exists>p0. envSchema_parse X env = Inr p0 \<and>
          (env ''AUTH_TRUST_HOST'' = None \<longrightarrow> AUTH_TRUST_HOST p0 = False) \<and>
          p = p0 \<lparr> AUTH_TRUST_HOST := AUTH_TRUST_HOST p \<rparr>"
    using 1 envObject_Valid_defaults [OF obj] by (intro exI [of _ p0]) (simp add: p)
  then show ?thesis
    using envObject_Valid_defaults [OF obj] by (simp add: p)
next
  case 2
  with assms show ?thesis
    by (simp add: validateEnv_parse_failed)
qed


text \<open>
  An environment that sets only the log level: every other default is filled in, and the
  host-trust flag stays false.
\<close>

theorem defaults_filled_in_witness:
  "validateEnv digits_only (map_of [(''LOG_LEVEL'', ''WARN'')]) =
     Inr \<lparr> NODE_ENV = ''development'', NEXTAUTH_SECRET = ''dev-secret'', NEXTAUTH_URL = None,
       AUTH_TRUST_HOST = False, GOOGLE_CLIENT_ID = None, GOOGLE_CLIENT_SECRET = None,
       RATE_LIMIT_ENABLED = True, RATE_LIMIT_MAX_REQUESTS = 100,
       RATE_LIMIT_WINDOW_SECONDS = 60, ANALYTICS_ENABLED = True, ANALYTICS_SINK = ''log'',
       LOG_LEVEL = ''WARN'', LOG_FORMAT = ''json'', LOG_INCLUDE_TIMESTAMP = True,
       DATABASE_QUERY_TIMEOUT = 5000, CACHE_DEFAULT_TTL = 3600,
       ENABLE_PERFORMANCE_MONITORING = True, SLOW_QUERY_THRESHOLD_MS = 1000 \<rparr>"
proof -
  have run: "validateEnv digits_only (map_of [(''LOG_LEVEL'', ''WARN'')]) =
     Inr \<lparr> NODE_ENV = ''development'', NEXTAUTH_SECRET = ''dev-secret'', NEXTAUTH_URL = None,
       AUTH_TRUST_HOST = False, GOOGLE_CLIENT_ID = None, GOOGLE_CLIENT_SECRET = None,
       RATE_LIMIT_ENABLED = True, RATE_LIMIT_MAX_REQUESTS = 100,
       RATE_LIMIT_WINDOW_SECONDS = 60, ANALYTICS_ENABLED = True, ANALYTICS_SINK = ''log'',
       LOG_LEVEL = ''WARN'', LOG_FORMAT = ''json'', LOG_INCLUDE_TIMESTAMP = True,
       DATABASE_QUERY_TIMEOUT = 5000, CACHE_DEFAULT_TTL = 3600,
       ENABLE_PERFORMANCE_MONITORING = True, SLOW_QUERY_THRESHOLD_MS = 1000 \<rparr>"
    by code_simp
  show ?thesis
    using defaults_filled_in [OF run] run by simp
qed

text \<open>
  The claim as stated fails on a hosting platform: with \<^verbatim>\<open>VERCEL\<close> set and
  \<^verbatim>\<open>AUTH_TRUST_HOST\<close> not set, the validated record has the host-trust flag true.
\<close>

theorem host_trust_default_counterexample:
  "map_of [(''VERCEL'', ''1'')] ''AUTH_TRUST_HOST'' = None \<and>
   validateEnv digits_only (map_of [(''VERCEL'', ''1'')]) =
     Inr \<lparr> NODE_ENV = ''development'', NEXTAUTH_SECRET = ''dev-secret'', NEXTAUTH_URL = None,
       AUTH_TRUST_HOST = True, GOOGLE_CLIENT_ID = None, GOOGLE_CLIENT_SECRET = None,
       RATE_LIMIT_ENABLED = True, RATE_LIMIT_MAX_REQUESTS = 100,
       RATE_LIMIT_WINDOW_SECONDS = 60, ANALYTICS_ENABLED = True, ANALYTICS_SINK = ''log'',
       LOG_LEVEL = ''INFO'', LOG_FORMAT = ''json'', LOG_INCLUDE_TIMESTAMP = True,
       DATABASE_QUERY_TIMEOUT = 5000, CACHE_DEFAULT_TTL = 3600,
       ENABLE_PERFORMANCE_MONITORING = True, SLOW_QUERY_THRESHOLD_MS = 1000 \<rparr>"
  by code_simp

subsection \<open>Bounds\<close>

lemma bounded_rejects:
  assumes "Number X s = NegInfinity \<or> Number X s = PosInfinity \<or>
           (\<exists>r. Number X s = Finite r \<and> (r < lo \<or> hi < r))"
  shows "\<exists>c. Issue [] c None \<in> set (issues_of (bounded X lo hi d (Some s)))"
  using assms by (cases "Number X s") (auto simp: bounded_def z_min_def z_max_def)


lemma threshold_issues_kept:
  "set (issues_of (z_field env ''RATE_LIMIT_MAX_REQUESTS'' (bounded X 1 10000 100)))
   \<subseteq> set (issues_of (envSchema X env))"
  unfolding issues_of_envSchema envObject_def Let_def
  by (simp add: issues_of_ap le_supI1 le_supI2)

text \<open>
  C9. If \<^verbatim>\<open>RATE_LIMIT_MAX_REQUESTS\<close> is set and \<^verbatim>\<open>Number\<close> of its value is below 1 or
  above 10000 (an infinity included), the schema throws, with an issue at that key, and
  \<^verbatim>\<open>validateEnv\<close> throws its validation error: no record is returned. In particular
  the value \<^verbatim>\<open>"0"\<close>, which \<^verbatim>\<open>Number\<close> reads as 0, is rejected.
\<close>

theorem rate_limit_threshold_bounds:
  "(env ''RATE_LIMIT_MAX_REQUESTS'' = Some s \<and>
    (Number X s = NegInfinity \<or> Number X s = PosInfinity \<or>
     (\<exists>r. Number X s = Finite r \<and> (r < 1 \<or> 10000 < r)))
    \<longrightarrow> (\<exists>is c. envSchema_parse X env = Inl (ZodError is) \<and>
               Issue [''RATE_LIMIT_MAX_REQUESTS''] c None \<in> set is) \<and>
        validateEnv X env =
          Inl (Error ''Environment variable validation failed. Please check configuration''))
   \<and>
   (env ''RATE_LIMIT_MAX_REQUESTS'' = Some ''0'' \<and> Number X ''0'' = Finite 0
    \<longrightarrow> validateEnv X env =
          Inl (Error ''Environment variable validation failed. Please check configuration''))"
proof -
  have main: "(\<exists>is c. envSchema_parse X env = Inl (ZodError is) \<and>
               Issue [''RATE_LIMIT_MAX_REQUESTS''] c None \<in> set is) \<and>
        validateEnv X env =
          Inl (Error ''Environment variable validation failed. Please check configuration'')"
    if set: "env ''RATE_LIMIT_MAX_REQUESTS'' = Some t"
      and out: "Number X t = NegInfinity \<or> Number X t = PosInfinity \<or>
         (\<exists>r. Number X t = Finite r \<and> (r < 1 \<or> 10000 < r))" for t
  proof -
    have "envObject X env \<noteq> Valid p" for p
    proof
      assume "envObject X env = Valid p"
      from envObject_Valid_fields [OF this]
      have "bounded X 1 10000 100 (env ''RATE_LIMIT_MAX_REQUESTS'') =
          Valid (RATE_LIMIT_MAX_REQUESTS p)"
        by simp
      with set out show False
        by (auto simp: bounded_eq_Valid)
    qed
    then have failed: "envSchema_parse X env = Inl (ZodError (issues_of (envSchema X env)))"
      by (rule not_Valid_fails)
    from bounded_rejects [OF out, of 100] obtain c
      where "Issue [] c None \<in> set (issues_of (bounded X 1 10000 100 (Some t)))" ..
    then have "prefixIssue ''RATE_LIMIT_MAX_REQUESTS'' (Issue [] c None)
        \<in> prefixIssue ''RATE_LIMIT_MAX_REQUESTS'' `
          set (issues_of (bounded X 1 10000 100 (Some t)))"
      by (rule imageI)
    then have "Issue [''RATE_LIMIT_MAX_REQUESTS''] c None
        \<in> set (issues_of (z_field env ''RATE_LIMIT_MAX_REQUESTS'' (bounded X 1 10000 100)))"
      by (simp add: issues_of_z_field set)
    with threshold_issues_kept [of env X]
    have "Issue [''RATE_LIMIT_MAX_REQUESTS''] c None \<in> set (issues_of (envSchema X env))"
      by auto
    with failed show ?thesis
      by (auto simp: validateEnv_parse_failed)
  qed
  show ?thesis
  proof (intro conjI impI)
    assume "env ''RATE_LIMIT_MAX_REQUESTS'' = Some s \<and>
      (Number X s = NegInfinity \<or> Number X s = PosInfinity \<or>
       (\<exists>r. Number X s = Finite r \<and> (r < 1 \<or> 10000 < r)))"
    then show "\<exists>is c. envSchema_parse X env = Inl (ZodError is) \<and>
               Issue [''RATE_LIMIT_MAX_REQUESTS''] c None \<in> set is"
      and "validateEnv X env =
          Inl (Error ''Environment variable validation failed. Please check configuration'')"
      using main [of s] by blast+
  next
    assume "env ''RATE_LIMIT_MAX_REQUESTS'' = Some ''0'' \<and> Number X ''0'' = Finite 0"
    then show "validateEnv X env =
          Inl (Error ''Environment variable validation failed. Please check configuration'')"
      using main [of "''0''"] by simp
  qed
qed



text \<open>The example of the specification.\<close>

theorem rate_limit_threshold_bounds_witness:
  "validateEnv digits_only (map_of [(''RATE_LIMIT_MAX_REQUESTS'', ''0'')]) =
     Inl (Error ''Environment variable validation failed. Please check configuration'')
   \<and> validateEnv digits_only (map_of [(''RATE_LIMIT_MAX_REQUESTS'', ''10001'')]) =
     Inl (Error ''Environment variable validation failed. Please check configuration'')"
proof -
  have "Number digits_only ''0'' = Finite 0"
    and "Number digits_only ''10001'' = Finite 10001"
    by (simp_all add: digits_only_def digit_value_def)
  then show ?thesis
    using rate_limit_threshold_bounds
        [of "map_of [(''RATE_LIMIT_MAX_REQUESTS'', ''0'')]" "''0''" digits_only]
      rate_limit_threshold_bounds
        [of "map_of [(''RATE_LIMIT_MAX_REQUESTS'', ''10001'')]" "''10001''" digits_only]
    by simp
qed

section \<open>Properties of the policy object\<close>

text \<open>
  C8, as the code has it. The policy object exists when \<^verbatim>\<open>validateEnv\<close> returns, and its
  debug flag is read from \<^verbatim>\<open>process.env.NODE_ENV\<close> itself, not from the validated
  record: it is enabled exactly when the variable is set to \<^verbatim>\<open>development\<close>. So an
  enabled flag implies that the validated run mode is \<^verbatim>\<open>development\<close>, and the converse
  holds whenever the variable is set; when it is not set, the validated run mode defaults
  to \<^verbatim>\<open>development\<close> and the debug flag is disabled.
\<close>

theorem debug_flag_mirrors_raw_run_mode:
  assumes "load_authConfig X env = Inr cfg"
  shows "\<exists>p. validateEnv X env = Inr p \<and> cfg = authConfig env p \<and>
           (debug cfg \<longleftrightarrow> env ''NODE_ENV'' = Some ''development'') \<and>
           (debug cfg \<longrightarrow> NODE_ENV p = ''development'') \<and>
           (env ''NODE_ENV'' \<noteq> None \<longrightarrow> (debug cfg \<longleftrightarrow> NODE_ENV p = ''development'')) \<and>
           (env ''NODE_ENV'' = None \<longrightarrow> \<not> debug cfg \<and> NODE_ENV p = ''development'')"
proof -
  from assms obtain p where p: "validateEnv X env = Inr p" and cfg: "cfg = authConfig env p"
    by (auto simp: load_authConfig_def split: sum.splits)
  from p obtain p0 where p0: "envSchema_parse X env = Inr p0"
    by (cases rule: envSchema_parse_cases [of X env]) (simp_all add: validateEnv_parse_failed)
  then have obj: "envObject X env = Valid p0"
    by (simp add: envSchema_parse_eq_Inr)
  from p have "NODE_ENV p = NODE_ENV p0"
    unfolding validateEnv_parsed [OF p0] by (auto split: if_splits)
  with envObject_Valid_values [OF obj]
  have mode: "NODE_ENV p = (case env ''NODE_ENV'' of None \<Rightarrow> ''development'' | Some s \<Rightarrow> s)"
    by simp
  have dbg: "debug (authConfig env p) \<longleftrightarrow> env ''NODE_ENV'' = Some ''development''"
    by (simp add: authConfig_def)
  show ?thesis
    using p by (intro exI [of _ p]) (cases "env ''NODE_ENV''"; simp add: cfg dbg mode)
qed

text \<open>With the run mode set to \<^verbatim>\<open>development\<close> the flag is enabled.\<close>

theorem debug_flag_mirrors_raw_run_mode_witness:
  "map_sum id debug (load_authConfig digits_only (map_of [(''NODE_ENV'', ''development'')])) =
     Inr True
   \<and> map_sum id NODE_ENV (validateEnv digits_only (map_of [(''NODE_ENV'', ''development'')])) =
     Inr ''development''"
proof -
  have env: "validateEnv digits_only (map_of [(''NODE_ENV'', ''development'')]) =
     Inr \<lparr> NODE_ENV = ''development'', NEXTAUTH_SECRET = ''dev-secret'', NEXTAUTH_URL = None,
       AUTH_TRUST_HOST = False, GOOGLE_CLIENT_ID = None, GOOGLE_CLIENT_SECRET = None,
       RATE_LIMIT_ENABLED = True, RATE_LIMIT_MAX_REQUESTS = 100,
       RATE_LIMIT_WINDOW_SECONDS = 60, ANALYTICS_ENABLED = True, ANALYTICS_SINK = ''log'',
       LOG_LEVEL = ''INFO'', LOG_FORMAT = ''json'', LOG_INCLUDE_TIMESTAMP = True,
       DATABASE_QUERY_TIMEOUT = 5000, CACHE_DEFAULT_TTL = 3600,
       ENABLE_PERFORMANCE_MONITORING = True, SLOW_QUERY_THRESHOLD_MS = 1000 \<rparr>"
    by code_simp
  then have run: "load_authConfig digits_only (map_of [(''NODE_ENV'', ''development'')]) =
    Inr \<lparr> trustHost = False, session_strategy = ''jwt'', session_maxAge = 2592000,
          pages_signIn = ''/login'', pages_error = ''/login'', google_clientId = None,
          google_clientSecret = None, debug = True \<rparr>"
    by (simp add: load_authConfig_def authConfig_def)
  show ?thesis
    using debug_flag_mirrors_raw_run_mode [OF run] unfolding run env
    by (simp add: authConfig_def)
qed

text \<open>
  The claim as stated fails when \<^verbatim>\<open>NODE_ENV\<close> is not set: the validated run mode is
  \<^verbatim>\<open>development\<close>, and the debug flag of the policy object is disabled.
\<close>

theorem debug_flag_counterexample:
  "map_sum id NODE_ENV (validateEnv digits_only (map_of [])) = Inr ''development'' \<and>
   map_sum id debug (load_authConfig digits_only (map_of [])) = Inr False"
proof -
  have "validateEnv digits_only (map_of []) =
     Inr \<lparr> NODE_ENV = ''development'', NEXTAUTH_SECRET = ''dev-secret'', NEXTAUTH_URL = None,
       AUTH_TRUST_HOST = False, GOOGLE_CLIENT_ID = None, GOOGLE_CLIENT_SECRET = None,
       RATE_LIMIT_ENABLED = True, RATE_LIMIT_MAX_REQUESTS = 100,
       RATE_LIMIT_WINDOW_SECONDS = 60, ANALYTICS_ENABLED = True, ANALYTICS_SINK = ''log'',
       LOG_LEVEL = ''INFO'', LOG_FORMAT = ''json'', LOG_INCLUDE_TIMESTAMP = True,
       DATABASE_QUERY_TIMEOUT = 5000, CACHE_DEFAULT_TTL = 3600,
       ENABLE_PERFORMANCE_MONITORING = True, SLOW_QUERY_THRESHOLD_MS = 1000 \<rparr>"
    by code_simp
  then show ?thesis
    by (simp add: load_authConfig_def authConfig_def)
qed

section \<open>Properties of the credentials provider and the callbacks\<close>


lemma authorize_supplied:
  assumes "optional_chain creds email = Some e" and "optional_chain creds password = Some pw"
    and "e \<noteq> []" and "pw \<noteq> []"
  shows "authorize C creds =
     (case findUnique C e of
        None \<Rightarrow> (Inl (Error ''Invalid email or password''), [FindUnique e])
      | Some u \<Rightarrow>
          if \<not> truthy (db_password u)
          then (Inl (Error ''Invalid email or password''), [FindUnique e])
          else if \<not> verifyPassword C pw (the (db_password u))
          then (Inl (Error ''Invalid email or password''),
                [FindUnique e, VerifyPassword pw (the (db_password u))])
          else (Inr \<lparr> user_id = Some (toString C (db_id u)),
                      user_email = Some (db_email u),
                      user_name = db_name u,
                      user_image = db_image u \<rparr>,
                [FindUnique e, VerifyPassword pw (the (db_password u))]))"
  using assms by (auto simp: authorize_def split: option.splits)

text \<open>
  C2. With a non-empty email and password, \<^verbatim>\<open>authorize\<close> throws the same error, with
  the message \<^verbatim>\<open>Invalid email or password\<close>, in each of the three cases: no row for the
  email; a row without a stored hash (none, or an empty one); a row with a hash that the
  verifier rejects. The thrown value is the same, so it does not tell the cases apart.
\<close>

theorem invalid_credentials_same_error:
  assumes "optional_chain creds email = Some e" and "optional_chain creds password = Some pw"
    and "e \<noteq> []" and "pw \<noteq> []"
  shows "(findUnique C e = None \<longrightarrow>
            fst (authorize C creds) = Inl (Error ''Invalid email or password''))
    \<and> (\<forall>u. findUnique C e = Some u \<and> \<not> truthy (db_password u) \<longrightarrow>
            fst (authorize C creds) = Inl (Error ''Invalid email or password''))
    \<and> (\<forall>u hash. findUnique C e = Some u \<and> db_password u = Some hash \<and>
            \<not> verifyPassword C pw hash \<longrightarrow>
            fst (authorize C creds) = Inl (Error ''Invalid email or password''))"
  unfolding authorize_supplied [OF assms] by auto

text \<open>
  The three cases on the example table: an unknown email, a row without a hash, a wrong
  password.
\<close>

theorem invalid_credentials_same_error_witness:
  "fst (authorize demo (Some \<lparr> email = Some ''zed@example.com'', password = Some ''x'' \<rparr>)) =
     Inl (Error ''Invalid email or password'')
   \<and> fst (authorize demo (Some \<lparr> email = Some ''bob@example.com'', password = Some ''x'' \<rparr>)) =
     Inl (Error ''Invalid email or password'')
   \<and> fst (authorize demo (Some \<lparr> email = Some ''ann@example.com'', password = Some ''x'' \<rparr>)) =
     Inl (Error ''Invalid email or password'')"
proof -
  have "findUnique demo ''zed@example.com'' = None"
    and "\<exists>u. findUnique demo ''bob@example.com'' = Some u \<and> \<not> truthy (db_password u)"
    and "\<exists>u. findUnique demo ''ann@example.com'' = Some u \<and>
           db_password u = Some ''hash:correct horse'' \<and>
           \<not> verifyPassword demo ''x'' ''hash:correct horse''"
    by (simp_all add: demo_def demo_users_def)
  then show ?thesis
    using invalid_credentials_same_error
        [of "Some \<lparr> email = Some ''zed@example.com'', password = Some ''x'' \<rparr>"
          "''zed@example.com''" "''x''" demo]
      invalid_credentials_same_error
        [of "Some \<lparr> email = Some ''bob@example.com'', password = Some ''x'' \<rparr>"
          "''bob@example.com''" "''x''" demo]
      invalid_credentials_same_error
        [of "Some \<lparr> email = Some ''ann@example.com'', password = Some ''x'' \<rparr>"
          "''ann@example.com''" "''x''" demo]
    by auto
qed

text \<open>
  C10. When the email or the password is missing or empty (or no credentials are given
  at all), \<^verbatim>\<open>authorize\<close> throws \<^verbatim>\<open>Please provide email and password\<close>, which is not
  the error of a failed authentication, and it has made no call to the persistence layer
  or the verifier.
\<close>

theorem missing_credentials_rejected_first:
  assumes "\<not> truthy (optional_chain creds email) \<or> \<not> truthy (optional_chain creds password)"
  shows "authorize C creds = (Inl (Error ''Please provide email and password''), [])
    \<and> fst (authorize C creds) \<noteq> Inl (Error ''Invalid email or password'')"
proof -
  have "authorize C creds = (Inl (Error ''Please provide email and password''), [])"
    using assms
    by (cases "optional_chain creds email"; cases "optional_chain creds password")
       (auto simp: authorize_def)
  then show ?thesis by simp
qed

text \<open>An empty password for a known email, and no credentials at all.\<close>

theorem missing_credentials_rejected_first_witness:
  "authorize demo (Some \<lparr> email = Some ''ann@example.com'', password = Some [] \<rparr>) =
     (Inl (Error ''Please provide email and password''), [])
   \<and> authorize demo None = (Inl (Error ''Please provide email and password''), [])"
  using missing_credentials_rejected_first
      [of "Some \<lparr> email = Some ''ann@example.com'', password = Some [] \<rparr>" demo]
    missing_credentials_rejected_first [of None demo]
  by simp

text \<open>
  C5, as the code has it. With a non-empty email and password, a row for the email, a
  non-empty stored hash and a verifier that accepts the password against it,
  \<^verbatim>\<open>authorize\<close> returns the projection of the row: its id as a string, its email, name
  and image.
\<close>

theorem authorize_returns_projection:
  assumes "optional_chain creds email = Some e" and "optional_chain creds password = Some pw"
    and "e \<noteq> []" and "pw \<noteq> []"
    and "findUnique C e = Some u" and "db_password u = Some hash" and "hash \<noteq> []"
    and "verifyPassword C pw hash"
  shows "fst (authorize C creds) =
     Inr \<lparr> user_id = Some (toString C (db_id u)), user_email = Some (db_email u),
           user_name = db_name u, user_image = db_image u \<rparr>"
  using assms by (simp add: authorize_def)

text \<open>The right password on the example table.\<close>

theorem authorize_returns_projection_witness:
  "fst (authorize demo
     (Some \<lparr> email = Some ''ann@example.com'', password = Some ''correct horse'' \<rparr>)) =
   Inr \<lparr> user_id = Some ''u1'', user_email = Some ''ann@example.com'',
         user_name = Some ''Ann'', user_image = None \<rparr>"
proof -
  have row: "findUnique demo ''ann@example.com'' =
      Some \<lparr> db_id = ''u1'', db_email = ''ann@example.com'', db_name = Some ''Ann'',
        db_image = None, db_password = Some ''hash:correct horse'' \<rparr>"
    and ok: "verifyPassword demo ''correct horse'' ''hash:correct horse''"
    by (simp_all add: demo_def demo_users_def)
  have "fst (authorize demo
     (Some \<lparr> email = Some ''ann@example.com'', password = Some ''correct horse'' \<rparr>)) =
     Inr \<lparr> user_id = Some (toString demo (db_id \<lparr> db_id = ''u1'',
             db_email = ''ann@example.com'', db_name = Some ''Ann'',
             db_image = None, db_password = Some ''hash:correct horse'' \<rparr>)),
           user_email = Some (db_email \<lparr> db_id = ''u1'',
             db_email = ''ann@example.com'', db_name = Some ''Ann'',
             db_image = None, db_password = Some ''hash:correct horse'' \<rparr>),
           user_name = db_name \<lparr> db_id = ''u1'',
             db_email = ''ann@example.com'', db_name = Some ''Ann'',
             db_image = None, db_password = Some ''hash:correct horse'' \<rparr>,
           user_image = db_image \<lparr> db_id = ''u1'',
             db_email = ''ann@example.com'', db_name = Some ''Ann'',
             db_image = None, db_password = Some ''hash:correct horse'' \<rparr> \<rparr>"
    by (rule authorize_returns_projection [OF _ _ _ _ row _ _ ok]) simp_all
  then show ?thesis
    by (simp add: demo_def)
qed

text \<open>
  The claim as stated fails for a user whose password is the empty string: the row
  exists, it has a stored hash, the verifier accepts the supplied (empty) password
  against that hash, and \<^verbatim>\<open>authorize\<close> throws before it looks the user up.
\<close>

theorem authorize_empty_password_counterexample:
  "findUnique demo ''eve@example.com'' =
     Some \<lparr> db_id = ''u3'', db_email = ''eve@example.com'', db_name = Some ''Eve'',
       db_image = None, db_password = Some ''hash:'' \<rparr>
   \<and> verifyPassword demo [] ''hash:''
   \<and> authorize demo (Some \<lparr> email = Some ''eve@example.com'', password = Some [] \<rparr>) =
       (Inl (Error ''Please provide email and password''), [])"
  by (simp add: demo_def demo_users_def authorize_def)

text \<open>
  C6. The token callback. With a freshly authenticated identity, the returned token has
  the identity's id, email, name and image (as the token's picture), and its other fields
  are the input token's; without one, the returned token is the input token.
\<close>

theorem jwt_copies_identity_or_keeps_token:
  "token_id (jwt t (Some u)) = user_id u
   \<and> token_email (jwt t (Some u)) = user_email u
   \<and> token_name (jwt t (Some u)) = user_name u
   \<and> token_picture (jwt t (Some u)) = user_image u
   \<and> token.more (jwt t (Some u)) = token.more t
   \<and> jwt t None = t"
  by (simp add: jwt_def)

text \<open>
  C7. The session callback is idempotent: applying it again with the same token changes
  nothing, in the user projection or anywhere else in the session.
\<close>

theorem session_callback_idempotent:
  "session_callback (session_callback s t) t = session_callback s t"
  by (cases t; cases "user s") (simp_all add: session_callback_def)

end
